theory Spec2Isabelle
  imports Complex_Main
begin

section \<open>Python values and failures\<close>

text \<open>
  The exceptions that the statements of \<^verbatim>\<open>chemprop/features/featurization.py\<close> can raise.
  \<open>RuntimeError\<close> stands for a failure inside an external library (an RDKit range check, a
  torch shape mismatch).
\<close>

datatype error =
    AttributeError
  | KeyError
  | TypeError
  | IndexError
  | ValueError
  | NotImplementedError
  | UnboundLocalError
  | RuntimeError

definition bindE :: "error + 'a \<Rightarrow> ('a \<Rightarrow> error + 'b) \<Rightarrow> error + 'b" where
  "bindE m f = (case m of Inl e \<Rightarrow> Inl e | Inr x \<Rightarrow> f x)"

text \<open>Running a fallible loop body over the values of an iterator, stopping at the first raise.\<close>

primrec for_loop :: "'a list \<Rightarrow> ('a \<Rightarrow> 's \<Rightarrow> error + 's) \<Rightarrow> 's \<Rightarrow> error + 's" where
  "for_loop [] body s = Inr s"
| "for_loop (x # xs) body s = bindE (body x s) (for_loop xs body)"

text \<open>A list comprehension whose element expression can raise.\<close>

primrec comprehension :: "('a \<Rightarrow> error + 'b) \<Rightarrow> 'a list \<Rightarrow> error + 'b list" where
  "comprehension f [] = Inr []"
| "comprehension f (x # xs) =
     bindE (f x) (\<lambda>y. bindE (comprehension f xs) (\<lambda>ys. Inr (y # ys)))"

text \<open>Feature values: Python mixes \<open>bool\<close>, \<open>int\<close> and \<open>float\<close>; here they are reals, with
  \<open>True\<close> as 1 and \<open>False\<close> as 0 (rounding of floats is outside the model).\<close>

type_synonym feature = real
type_synonym fvec = "feature list"

text \<open>\<open>xs[i]\<close> for a non-negative index.\<close>

definition getitem :: "'a list \<Rightarrow> nat \<Rightarrow> error + 'a" where
  "getitem xs i = (if i < length xs then Inr (xs ! i) else Inl IndexError)"

text \<open>\<open>xs[i] = v\<close> for a Python integer index: a negative index counts from the end.\<close>

definition setitem :: "'a list \<Rightarrow> int \<Rightarrow> 'a \<Rightarrow> error + 'a list" where
  "setitem xs i v =
     (let n = int (length xs); j = (if i < 0 then n + i else i)
      in if 0 \<le> j \<and> j < n then Inr (xs[nat j := v]) else Inl IndexError)"

text \<open>The values that reach the right-hand side of a sequence repetition \<open>xs * n\<close> in this
  module: an integer, \<open>None\<close>, or a generator object. Only an integer is accepted.\<close>

datatype pyvalue = PyInt int | PyNone | PyGenerator

definition list_times :: "'a list \<Rightarrow> pyvalue \<Rightarrow> error + 'a list" where
  "list_times xs n =
     (case n of PyInt k \<Rightarrow> Inr (concat (replicate (nat k) xs)) | _ \<Rightarrow> Inl TypeError)"

text \<open>\<open>d[key]\<close> on a dictionary given as its items.\<close>

definition dict_getitem :: "('k \<times> 'v) list \<Rightarrow> 'k \<Rightarrow> error + 'v" where
  "dict_getitem d k = (case map_of d k of None \<Rightarrow> Inl KeyError | Some v \<Rightarrow> Inr v)"

text \<open>\<open>choices.index(value)\<close> where \<open>value in choices\<close>: the first position.\<close>

primrec list_index :: "'a list \<Rightarrow> 'a \<Rightarrow> nat" where
  "list_index [] v = 0"
| "list_index (x # xs) v = (if x = v then 0 else Suc (list_index xs v))"

section \<open>The RDKit objects the module reads\<close>

datatype BondType = SINGLE | DOUBLE | TRIPLE | AROMATIC | OTHER_BOND_TYPE

text \<open>An atom as the getters of \<^verbatim>\<open>Chem.rdchem.Atom\<close> that the module calls; enumerations are
  given by their integer value (\<open>int(atom.GetChiralTag())\<close>, \<open>int(atom.GetHybridization())\<close>).\<close>

record atom =
  GetAtomicNum :: int
  GetTotalDegree :: int
  GetFormalCharge :: int
  GetChiralTag :: int
  GetTotalNumHs :: int
  GetHybridization :: int
  GetIsAromatic :: bool
  GetMass :: real
  GetAtomMapNum :: int

record bond =
  GetBeginAtomIdx :: nat
  GetEndAtomIdx :: nat
  GetBondType :: BondType
  GetIsConjugated :: bool
  IsInRing :: bool
  GetStereo :: int

text \<open>A molecule: \<open>atom.GetIdx()\<close> and \<open>bond.GetIdx()\<close> are the positions in these lists.\<close>

record mol =
  GetAtoms :: "atom list"
  GetBonds :: "bond list"

definition GetNumAtoms :: "mol \<Rightarrow> nat" where
  "GetNumAtoms m = length (GetAtoms m)"

definition joins :: "nat \<Rightarrow> nat \<Rightarrow> nat \<times> bond \<Rightarrow> bool" where
  "joins a1 a2 ib =
     ((GetBeginAtomIdx (snd ib) = a1 \<and> GetEndAtomIdx (snd ib) = a2) \<or>
      (GetBeginAtomIdx (snd ib) = a2 \<and> GetEndAtomIdx (snd ib) = a1))"

text \<open>\<open>mol.GetBondBetweenAtoms(a1, a2)\<close>: the bond with its index, \<open>None\<close> when the atoms are
  not bonded; RDKit's range check fails on an atom index the molecule does not have.\<close>

definition GetBondBetweenAtoms :: "mol \<Rightarrow> nat \<Rightarrow> nat \<Rightarrow> error + (nat \<times> bond) option" where
  "GetBondBetweenAtoms m a1 a2 =
     (if a1 < GetNumAtoms m \<and> a2 < GetNumAtoms m
      then Inr (find (joins a1 a2) (enumerate 0 (GetBonds m)))
      else Inl RuntimeError)"

definition GetAtomWithIdx :: "mol \<Rightarrow> nat \<Rightarrow> error + atom" where
  "GetAtomWithIdx m i = (if i < GetNumAtoms m then Inr (GetAtoms m ! i) else Inl RuntimeError)"

section \<open>Feature sizes and the process-wide configuration\<close>

definition MAX_ATOMIC_NUM :: nat where
  "MAX_ATOMIC_NUM = 100"

text \<open>The integer values of \<^verbatim>\<open>Chem.rdchem.HybridizationType\<close>'s enumerators.\<close>

definition HybridizationType_SP :: int where "HybridizationType_SP = 2"
definition HybridizationType_SP2 :: int where "HybridizationType_SP2 = 3"
definition HybridizationType_SP3 :: int where "HybridizationType_SP3 = 4"
definition HybridizationType_SP3D :: int where "HybridizationType_SP3D = 5"
definition HybridizationType_SP3D2 :: int where "HybridizationType_SP3D2 = 6"

definition ATOM_FEATURES :: "(string \<times> int list) list" where
  "ATOM_FEATURES =
     [(''atomic_num'', map int [0..<MAX_ATOMIC_NUM]),
      (''degree'', [0, 1, 2, 3, 4, 5]),
      (''formal_charge'', [-1, -2, 1, 2, 0]),
      (''chiral_tag'', [0, 1, 2, 3]),
      (''num_Hs'', [0, 1, 2, 3, 4]),
      (''hybridization'',
         [HybridizationType_SP, HybridizationType_SP2, HybridizationType_SP3,
          HybridizationType_SP3D, HybridizationType_SP3D2])]"

definition ATOM_FDIM :: int where
  "ATOM_FDIM = sum_list (map (\<lambda>kv. int (length (snd kv)) + 1) ATOM_FEATURES) + 2"

definition BOND_FDIM :: int where
  "BOND_FDIM = 14"

text \<open>The module's globals that the setters change.\<close>

record config =
  EXTRA_ATOM_FDIM :: int
  EXTRA_BOND_FDIM :: int
  REACTION_MODE :: "string option"
  EXPLICIT_H :: bool
  REACTION :: bool

definition initial_config :: config where
  "initial_config =
     \<lparr>EXTRA_ATOM_FDIM = 0, EXTRA_BOND_FDIM = 0, REACTION_MODE = None,
      EXPLICIT_H = False, REACTION = False\<rparr>"

definition set_reaction :: "bool \<Rightarrow> string \<Rightarrow> config \<Rightarrow> config" where
  "set_reaction reaction mode cfg =
     (let cfg1 = cfg\<lparr>REACTION := reaction\<rparr>
      in if reaction
         then cfg1\<lparr>EXTRA_ATOM_FDIM := ATOM_FDIM - int MAX_ATOMIC_NUM - 1,
                   EXTRA_BOND_FDIM := BOND_FDIM,
                   REACTION_MODE := Some mode\<rparr>
         else cfg1)"

definition get_atom_fdim :: "config \<Rightarrow> bool \<Rightarrow> int" where
  "get_atom_fdim cfg overwrite_default_atom =
     (if \<not> overwrite_default_atom then 1 else 0) * ATOM_FDIM + EXTRA_ATOM_FDIM cfg"

text \<open>\<open>get_bond_fdim\<close> has a docstring and no statement after it, so a call returns \<open>None\<close>.\<close>

definition get_bond_fdim :: "config \<Rightarrow> bool \<Rightarrow> bool \<Rightarrow> bool \<Rightarrow> pyvalue" where
  "get_bond_fdim cfg atom_messages overwrite_default_bond overwrite_default_atom = PyNone"

section \<open>Feature encoders\<close>

definition onek_encoding_unk :: "int \<Rightarrow> int list \<Rightarrow> error + fvec" where
  "onek_encoding_unk v choices =
     (let encoding = replicate (length choices + 1) 0;
          index = (if v \<in> set choices then int (list_index choices v) else - 1)
      in setitem encoding index 1)"

definition atom_features :: "atom option \<Rightarrow> fvec option \<Rightarrow> error + fvec" where
  "atom_features atom functional_groups =
     (case atom of
        None \<Rightarrow> list_times [0] (PyInt ATOM_FDIM)
      | Some a \<Rightarrow>
          bindE (dict_getitem ATOM_FEATURES ''atomic_num'') (\<lambda>c1.
          bindE (onek_encoding_unk (GetAtomicNum a - 1) c1) (\<lambda>e1.
          bindE (dict_getitem ATOM_FEATURES ''degree'') (\<lambda>c2.
          bindE (onek_encoding_unk (GetTotalDegree a) c2) (\<lambda>e2.
          bindE (dict_getitem ATOM_FEATURES ''formal_charge'') (\<lambda>c3.
          bindE (onek_encoding_unk (GetFormalCharge a) c3) (\<lambda>e3.
          bindE (dict_getitem ATOM_FEATURES ''chiral_tag'') (\<lambda>c4.
          bindE (onek_encoding_unk (GetChiralTag a) c4) (\<lambda>e4.
          bindE (dict_getitem ATOM_FEATURES ''num_hs'') (\<lambda>c5.
          bindE (onek_encoding_unk (GetTotalNumHs a) c5) (\<lambda>e5.
          bindE (dict_getitem ATOM_FEATURES ''hybridization'') (\<lambda>c6.
          bindE (onek_encoding_unk (GetHybridization a) c6) (\<lambda>e6.
            let features =
                  e1 @ e2 @ e3 @ e4 @ e5 @ e6 @
                  [if GetIsAromatic a then 1 else 0] @ [GetMass a * 0.01]
            in Inr (case functional_groups of
                      None \<Rightarrow> features
                    | Some fg \<Rightarrow> features @ fg))))))))))))))"

definition bond_features :: "bond option \<Rightarrow> error + fvec" where
  "bond_features bond =
     (case bond of
        None \<Rightarrow> bindE (list_times [0] (PyInt (BOND_FDIM - 1))) (\<lambda>zs. Inr ([1] @ zs))
      | Some b \<Rightarrow>
          (let bt = GetBondType b;
               fbond = [0,
                        of_bool (bt = SINGLE),
                        of_bool (bt = DOUBLE),
                        of_bool (bt = TRIPLE),
                        of_bool (bt = AROMATIC),
                        of_bool (GetIsConjugated b),
                        of_bool (IsInRing b)]
           in bindE (onek_encoding_unk (GetStereo b) (map int [0..<6])) (\<lambda>e. Inr (fbond @ e))))"

section \<open>The graph of one molecule\<close>

record MolGraph =
  is_reaction :: bool
  is_explicit_h :: bool
  reaction_mode :: "string option"
  n_atoms :: nat
  n_bonds :: nat
  f_atoms :: "fvec list"
  f_bonds :: "fvec list"
  a2b :: "nat list list"
  b2a :: "nat list"
  b2revb :: "nat list"
  overwrite_default_atom_features :: bool
  overwrite_default_bond_features :: bool

text \<open>The \<open>mol\<close> argument after SMILES parsing (which \<open>make_mol\<close> leaves to RDKit): a
  molecule, or the pair of reactant and product molecules.\<close>

datatype mol_arg = Molecule mol | ReactionPair mol mol

text \<open>
  The truth value of \<open>self.name\<close> in a condition. When line 255 runs, the instance has the
  attributes that lines 234 to 253 assigned, and the class has only its methods besides;
  reading any other name raises AttributeError.
\<close>

definition attribute_truth :: "MolGraph \<Rightarrow> (string \<times> bool) list" where
  "attribute_truth self =
     [(''is_reaction'', is_reaction self),
      (''is_explicit_h'', is_explicit_h self),
      (''reaction_mode'', reaction_mode self \<noteq> None \<and> reaction_mode self \<noteq> Some []),
      (''n_atoms'', n_atoms self \<noteq> 0),
      (''n_bonds'', n_bonds self \<noteq> 0),
      (''f_atoms'', f_atoms self \<noteq> []),
      (''f_bonds'', f_bonds self \<noteq> []),
      (''a2b'', a2b self \<noteq> []),
      (''b2a'', b2a self \<noteq> []),
      (''b2revb'', b2revb self \<noteq> []),
      (''overwrite_default_atom_features'', overwrite_default_atom_features self),
      (''overwrite_default_bond_features'', overwrite_default_bond_features self)]"

definition truth_of_attribute :: "MolGraph \<Rightarrow> string \<Rightarrow> error + bool" where
  "truth_of_attribute self name =
     (case map_of (attribute_truth self) name of
        None \<Rightarrow> Inl AttributeError
      | Some t \<Rightarrow> Inr t)"

text \<open>Lines 291 to 299 and 368 to 376: the two directed edges of one bond.\<close>

definition update_index_mappings :: "nat \<Rightarrow> nat \<Rightarrow> MolGraph \<Rightarrow> error + MolGraph" where
  "update_index_mappings a1 a2 self =
     (let b1 = n_bonds self; b2 = b1 + 1
      in bindE (getitem (a2b self) a2) (\<lambda>into_a2.
         let self1 = self\<lparr>a2b := (a2b self)[a2 := into_a2 @ [b1]], b2a := b2a self @ [a1]\<rparr>
         in bindE (getitem (a2b self1) a1) (\<lambda>into_a1.
            let self2 = self1\<lparr>a2b := (a2b self1)[a1 := into_a1 @ [b2]], b2a := b2a self1 @ [a2]\<rparr>;
                self3 = self2\<lparr>b2revb := b2revb self2 @ [b2]\<rparr>;
                self4 = self3\<lparr>b2revb := b2revb self3 @ [b1]\<rparr>
            in Inr (self4\<lparr>n_bonds := n_bonds self4 + 2\<rparr>))))"

text \<open>Lines 287 to 299 and 364 to 376: the two edge feature rows, then the index mappings.\<close>

definition append_bond :: "nat \<Rightarrow> nat \<Rightarrow> fvec \<Rightarrow> MolGraph \<Rightarrow> error + MolGraph" where
  "append_bond a1 a2 f_bond self =
     bindE (getitem (f_atoms self) a1) (\<lambda>fa1.
     let self1 = self\<lparr>f_bonds := f_bonds self @ [fa1 @ f_bond]\<rparr>
     in bindE (getitem (f_atoms self1) a2) (\<lambda>fa2.
        update_index_mappings a1 a2 (self1\<lparr>f_bonds := f_bonds self1 @ [fa2 @ f_bond]\<rparr>)))"

subsection \<open>A single molecule (lines 256 to 302)\<close>

definition molecule_bond_step ::
  "mol \<Rightarrow> fvec list option \<Rightarrow> bool \<Rightarrow> nat \<Rightarrow> nat \<Rightarrow> MolGraph \<Rightarrow> error + MolGraph" where
  "molecule_bond_step m bond_features_extra overwrite_default_bond a1 a2 self =
     bindE (GetBondBetweenAtoms m a1 a2) (\<lambda>found.
       case found of
         None \<Rightarrow> Inr self
       | Some (idx, bond) \<Rightarrow>
           bindE (bond_features (Some bond)) (\<lambda>f_bond0.
           bindE (case bond_features_extra of
                    None \<Rightarrow> Inr f_bond0
                  | Some extra \<Rightarrow>
                      bindE (getitem extra idx) (\<lambda>descr.
                        if overwrite_default_bond then Inr descr else Inr descr)) (\<lambda>f_bond.
           append_bond a1 a2 f_bond self)))"

definition molecule_bond_loop ::
  "mol \<Rightarrow> fvec list option \<Rightarrow> bool \<Rightarrow> MolGraph \<Rightarrow> error + MolGraph" where
  "molecule_bond_loop m bond_features_extra overwrite_default_bond self =
     for_loop [0..<n_atoms self]
       (\<lambda>a1 s. for_loop [a1 + 1..<n_atoms s]
                  (molecule_bond_step m bond_features_extra overwrite_default_bond a1) s)
       self"

definition init_molecule ::
  "MolGraph \<Rightarrow> mol_arg \<Rightarrow> fvec list option \<Rightarrow> fvec list option \<Rightarrow> bool \<Rightarrow> bool
     \<Rightarrow> error + MolGraph" where
  "init_molecule self mol atom_features_extra bond_features_extra
       overwrite_default_atom overwrite_default_bond =
     bindE (case mol of Molecule m \<Rightarrow> Inr m | ReactionPair r p \<Rightarrow> Inl AttributeError) (\<lambda>m.
     bindE (comprehension (\<lambda>atom. atom_features (Some atom) None) (GetAtoms m)) (\<lambda>default_rows.
     let rows = (case atom_features_extra of
                   None \<Rightarrow> default_rows
                 | Some extra \<Rightarrow>
                     if overwrite_default_atom then extra
                     else map (\<lambda>fd. fst fd @ snd fd) (zip default_rows extra));
         self1 = self\<lparr>f_atoms := rows\<rparr>;
         self2 = self1\<lparr>n_atoms := length (f_atoms self1)\<rparr>
     in if (case atom_features_extra of
              None \<Rightarrow> False
            | Some extra \<Rightarrow> length extra \<noteq> n_atoms self2)
        then Inl ValueError
        else
          let self3 = self2\<lparr>a2b := a2b self2 @ replicate (n_atoms self2) []\<rparr>
          in bindE (molecule_bond_loop m bond_features_extra overwrite_default_bond self3) (\<lambda>self4.
             if (case bond_features_extra of
                   None \<Rightarrow> False
                 | Some extra \<Rightarrow> 2 * length extra \<noteq> n_bonds self4)
             then Inl ValueError
             else Inr self4)))"

subsection \<open>A reaction (lines 304 to 376)\<close>

text \<open>The loop of \<open>map_reac_to_prod\<close> over the product's atoms, on the pair
  \<open>(only_prod_ids, prod_map_to_id)\<close>.\<close>

definition scan_product_atom ::
  "int set \<Rightarrow> nat \<times> atom \<Rightarrow> nat list \<times> (int \<rightharpoonup> nat) \<Rightarrow> nat list \<times> (int \<rightharpoonup> nat)" where
  "scan_product_atom mapnos_reac ia st =
     (let only_prod_ids = fst st; prod_map_to_id = snd st;
          mapno = GetAtomMapNum (snd ia)
      in if mapno > 0
         then (let prod_map_to_id1 = prod_map_to_id(mapno \<mapsto> fst ia)
               in if mapno \<notin> mapnos_reac
                  then (only_prod_ids @ [fst ia], prod_map_to_id1)
                  else (only_prod_ids, prod_map_to_id1))
         else (only_prod_ids @ [fst ia], prod_map_to_id))"

text \<open>
  \<open>map_reac_to_prod\<close> returns \<open>(reac_id_to_prod_id, only_prod_ids, only_reac_ids)\<close>. Its
  \<open>return\<close> is a statement of the body of the loop over the reactant's atoms, so the loop
  ends in its first round, and with no reactant atom the function falls off its end and
  returns \<open>None\<close>. The \<open>else\<close> of line 202 belongs to the \<open>try\<close>: it runs when the lookup
  raised nothing.
\<close>

definition map_reac_to_prod ::
  "mol \<Rightarrow> mol \<Rightarrow> ((nat \<rightharpoonup> nat) \<times> nat list \<times> nat list) option" where
  "map_reac_to_prod mol_reac mol_prod =
     (let mapnos_reac = set (map GetAtomMapNum (GetAtoms mol_reac));
          scanned = fold (scan_product_atom mapnos_reac) (enumerate 0 (GetAtoms mol_prod))
                      ([], Map.empty);
          only_prod_ids = fst scanned; prod_map_to_id = snd scanned;
          only_reac_ids = []; reac_id_to_prod_id = Map.empty
      in case enumerate 0 (GetAtoms mol_reac) of
           [] \<Rightarrow> None
         | ia # rest \<Rightarrow>
             (let mapno = GetAtomMapNum (snd ia)
              in if mapno > 0
                 then (case prod_map_to_id mapno of
                         None \<Rightarrow>
                           Some (reac_id_to_prod_id, only_prod_ids, only_reac_ids @ [fst ia])
                       | Some prod_id \<Rightarrow>
                           Some (reac_id_to_prod_id(fst ia \<mapsto> prod_id), only_prod_ids,
                                 only_reac_ids @ [fst ia]))
                 else Some (reac_id_to_prod_id, only_prod_ids, only_reac_ids)))"

text \<open>Line 314.\<close>

definition reactant_side_features :: "mol \<Rightarrow> nat list \<Rightarrow> error + fvec list" where
  "reactant_side_features mol_reac pio =
     bindE (comprehension (\<lambda>atom. atom_features (Some atom) None) (GetAtoms mol_reac)) (\<lambda>xs.
     bindE (comprehension (\<lambda>index. atom_features None None) pio) (\<lambda>ys. Inr (xs @ ys)))"

text \<open>Lines 315 and 316.\<close>

definition product_side_features ::
  "mol \<Rightarrow> mol \<Rightarrow> (nat \<rightharpoonup> nat) \<Rightarrow> nat list \<Rightarrow> nat list \<Rightarrow> error + fvec list" where
  "product_side_features mol_reac mol_prod ri2pi pio rio =
     bindE (comprehension
              (\<lambda>ia. if fst ia \<notin> set rio
                    then (case ri2pi (fst ia) of
                            None \<Rightarrow> Inl KeyError
                          | Some prod_id \<Rightarrow>
                              bindE (GetAtomWithIdx mol_prod prod_id) (\<lambda>atom.
                                atom_features (Some atom) None))
                    else atom_features None None)
              (enumerate 0 (GetAtoms mol_reac))) (\<lambda>xs.
     bindE (comprehension
              (\<lambda>index. bindE (GetAtomWithIdx mol_prod index) (\<lambda>atom.
                          atom_features (Some atom) None))
              pio) (\<lambda>ys. Inr (xs @ ys)))"

text \<open>Lines 318 to 325: the new value of \<open>self.f_atoms\<close>; in a mode that is none of the
  three, nothing is assigned and \<open>self.f_atoms\<close> keeps its value \<open>unchanged\<close>.\<close>

definition combine_atom_features ::
  "string option \<Rightarrow> fvec list \<Rightarrow> fvec list \<Rightarrow> fvec list \<Rightarrow> fvec list" where
  "combine_atom_features mode unchanged f_atoms_reac f_atoms_prod =
     (let f_atoms_diff = map (\<lambda>p. map2 (\<lambda>x y. x - y) (fst p) (snd p))
                            (zip f_atoms_prod f_atoms_reac);
          tail = (\<lambda>p. fst p @ drop (MAX_ATOMIC_NUM + 1) (snd p))
      in if mode = Some ''reac_prod'' then map tail (zip f_atoms_reac f_atoms_prod)
         else if mode = Some ''reac_diff'' then map tail (zip f_atoms_reac f_atoms_diff)
         else if mode = Some ''prod_diff'' then map tail (zip f_atoms_prod f_atoms_diff)
         else unchanged)"

text \<open>Lines 336 to 350: the reactant-side and the product-side bond of a pair of positions.\<close>

definition reaction_bonds ::
  "mol \<Rightarrow> mol \<Rightarrow> (nat \<rightharpoonup> nat) \<Rightarrow> nat list \<Rightarrow> nat \<Rightarrow> nat \<Rightarrow> nat
     \<Rightarrow> error + ((nat \<times> bond) option \<times> (nat \<times> bond) option)" where
  "reaction_bonds mol_reac mol_prod ri2pi pio n_atoms_reac a1 a2 =
     (if a1 \<ge> n_atoms_reac \<and> a2 \<ge> n_atoms_reac
      then bindE (getitem pio (a1 - n_atoms_reac)) (\<lambda>p1.
           bindE (getitem pio (a2 - n_atoms_reac)) (\<lambda>p2.
           bindE (GetBondBetweenAtoms mol_prod p1 p2) (\<lambda>bond_prod. Inr (None, bond_prod))))
      else if a1 < n_atoms_reac \<and> a2 \<ge> n_atoms_reac
      then (case ri2pi a1 of
              Some p1 \<Rightarrow>
                bindE (getitem pio (a2 - n_atoms_reac)) (\<lambda>p2.
                bindE (GetBondBetweenAtoms mol_prod p1 p2) (\<lambda>bond_prod. Inr (None, bond_prod)))
            | None \<Rightarrow> Inr (None, None))
      else bindE (GetBondBetweenAtoms mol_reac a1 a2) (\<lambda>bond_reac.
             case ri2pi a1 of
               None \<Rightarrow> Inr (bond_reac, None)
             | Some p1 \<Rightarrow>
                 (case ri2pi a2 of
                    None \<Rightarrow> Inr (bond_reac, None)
                  | Some p2 \<Rightarrow>
                      bindE (GetBondBetweenAtoms mol_prod p1 p2) (\<lambda>bond_prod.
                        Inr (bond_reac, bond_prod)))))"

text \<open>Lines 356 to 363; in a mode that is none of the three, \<open>f_bond\<close> is never bound,
  which line 364 notices when it reads \<open>f_bond\<close>, after \<open>self.f_atoms[a1]\<close>.\<close>

definition combine_bond_features :: "string option \<Rightarrow> fvec \<Rightarrow> fvec \<Rightarrow> error + fvec" where
  "combine_bond_features mode f_bond_reac f_bond_prod =
     (let f_bond_diff = map2 (\<lambda>x y. y - x) f_bond_reac f_bond_prod
      in if mode = Some ''reac_prod'' then Inr (f_bond_reac @ f_bond_prod)
         else if mode = Some ''reac_diff'' then Inr (f_bond_reac @ f_bond_diff)
         else if mode = Some ''prod_diff'' then Inr (f_bond_prod @ f_bond_diff)
         else Inl UnboundLocalError)"

definition reaction_bond_step ::
  "mol \<Rightarrow> mol \<Rightarrow> (nat \<rightharpoonup> nat) \<Rightarrow> nat list \<Rightarrow> nat \<Rightarrow> nat \<Rightarrow> nat \<Rightarrow> MolGraph
     \<Rightarrow> error + MolGraph" where
  "reaction_bond_step mol_reac mol_prod ri2pi pio n_atoms_reac a1 a2 self =
     bindE (reaction_bonds mol_reac mol_prod ri2pi pio n_atoms_reac a1 a2) (\<lambda>bonds.
       if fst bonds = None \<and> snd bonds = None then Inr self
       else
         bindE (bond_features (map_option snd (fst bonds))) (\<lambda>f_bond_reac.
         bindE (bond_features (map_option snd (snd bonds))) (\<lambda>f_bond_prod.
         bindE (getitem (f_atoms self) a1) (\<lambda>fa1.
         bindE (combine_bond_features (reaction_mode self) f_bond_reac f_bond_prod) (\<lambda>f_bond.
         append_bond a1 a2 f_bond self)))))"

definition reaction_bond_loop ::
  "mol \<Rightarrow> mol \<Rightarrow> (nat \<rightharpoonup> nat) \<Rightarrow> nat list \<Rightarrow> nat \<Rightarrow> MolGraph \<Rightarrow> error + MolGraph" where
  "reaction_bond_loop mol_reac mol_prod ri2pi pio n_atoms_reac self =
     for_loop [0..<n_atoms self]
       (\<lambda>a1 s. for_loop [a1 + 1..<n_atoms s]
                  (reaction_bond_step mol_reac mol_prod ri2pi pio n_atoms_reac a1) s)
       self"

definition init_reaction ::
  "MolGraph \<Rightarrow> mol_arg \<Rightarrow> fvec list option \<Rightarrow> fvec list option \<Rightarrow> error + MolGraph" where
  "init_reaction self mol atom_features_extra bond_features_extra =
     (if atom_features_extra \<noteq> None then Inl NotImplementedError
      else if bond_features_extra \<noteq> None then Inl NotImplementedError
      else
        bindE (case mol of ReactionPair r p \<Rightarrow> Inr (r, p) | Molecule m \<Rightarrow> Inl TypeError) (\<lambda>rp.
        let mol_reac = fst rp; mol_prod = snd rp
        in bindE (case map_reac_to_prod mol_reac mol_prod of
                    None \<Rightarrow> Inl TypeError
                  | Some t \<Rightarrow> Inr t) (\<lambda>t.
           let ri2pi = fst t; pio = fst (snd t); rio = snd (snd t)
           in bindE (reactant_side_features mol_reac pio) (\<lambda>f_atoms_reac.
              bindE (product_side_features mol_reac mol_prod ri2pi pio rio) (\<lambda>f_atoms_prod.
              let self1 = self\<lparr>f_atoms :=
                                 combine_atom_features (reaction_mode self) (f_atoms self)
                                   f_atoms_reac f_atoms_prod\<rparr>;
                  self2 = self1\<lparr>n_atoms := length (f_atoms self1)\<rparr>;
                  n_atoms_reac = GetNumAtoms mol_reac;
                  self3 = self2\<lparr>a2b := a2b self2 @ replicate (n_atoms self2) []\<rparr>
              in reaction_bond_loop mol_reac mol_prod ri2pi pio n_atoms_reac self3)))))"

subsection \<open>The constructor\<close>

text \<open>Lines 234 to 253: the attributes of a new instance.\<close>

definition new_MolGraph :: "config \<Rightarrow> bool \<Rightarrow> bool \<Rightarrow> MolGraph" where
  "new_MolGraph cfg overwrite_default_atom overwrite_default_bond =
     \<lparr>is_reaction = REACTION cfg,
      is_explicit_h = EXPLICIT_H cfg,
      reaction_mode = REACTION_MODE cfg,
      n_atoms = 0, n_bonds = 0, f_atoms = [], f_bonds = [],
      a2b = [], b2a = [], b2revb = [],
      overwrite_default_atom_features = overwrite_default_atom,
      overwrite_default_bond_features = overwrite_default_bond\<rparr>"

definition MolGraph_init ::
  "config \<Rightarrow> mol_arg \<Rightarrow> fvec list option \<Rightarrow> fvec list option \<Rightarrow> bool \<Rightarrow> bool
     \<Rightarrow> error + MolGraph" where
  "MolGraph_init cfg mol atom_features_extra bond_features_extra
       overwrite_default_atom overwrite_default_bond =
     (let self = new_MolGraph cfg overwrite_default_atom overwrite_default_bond
      in bindE (truth_of_attribute self ''isreaction'') (\<lambda>isreaction.
           if \<not> isreaction
           then init_molecule self mol atom_features_extra bond_features_extra
                  overwrite_default_atom overwrite_default_bond
           else init_reaction self mol atom_features_extra bond_features_extra))"

text \<open>The error classes of the spec, as the exceptions the module raises: a configuration
  error is the NotImplementedError of lines 305 and 307, a data-integrity error the
  ValueError of lines 266 and 301.\<close>

definition configuration_error :: "error \<Rightarrow> bool" where
  "configuration_error e = (e = NotImplementedError)"

definition data_integrity_error :: "error \<Rightarrow> bool" where
  "data_integrity_error e = (e = ValueError)"

section \<open>The batch of graphs\<close>

text \<open>
  The state of \<open>BatchMolGraph.__init__\<close> while it places the graphs: the counters and scopes
  it keeps on \<open>self\<close>, its local lists, and its loop variable \<open>a\<close>, which is bound by the
  first round of the loop of line 420 and keeps its last value afterwards.
\<close>

record placing =
  self_n_atoms :: nat
  self_n_bonds :: nat
  self_a_scope :: "(nat \<times> nat) list"
  self_b_scope :: "(nat \<times> nat) list"
  local_f_atoms :: "fvec list"
  local_f_bonds :: "fvec list"
  local_a2b :: "nat list list"
  local_b2a :: "nat list"
  local_b2revb :: "nat list"
  local_a :: "nat option"

text \<open>Lines 403 to 414, given the two padding rows.\<close>

definition start_placing :: "fvec \<Rightarrow> fvec \<Rightarrow> placing" where
  "start_placing zero_atom zero_bond =
     \<lparr>self_n_atoms = 1, self_n_bonds = 1, self_a_scope = [], self_b_scope = [],
      local_f_atoms = [zero_atom], local_f_bonds = [zero_bond],
      local_a2b = [[]], local_b2a = [0], local_b2revb = [0], local_a = None\<rparr>"

text \<open>Lines 420 and 421.\<close>

definition place_atom :: "MolGraph \<Rightarrow> nat \<Rightarrow> placing \<Rightarrow> error + placing" where
  "place_atom mol_graph a st =
     (let st1 = st\<lparr>local_a := Some a\<rparr>
      in bindE (getitem (a2b mol_graph) a) (\<lambda>in_bonds.
           Inr (st1\<lparr>local_a2b := local_a2b st1 @ [map (\<lambda>b. b + self_n_bonds st1) in_bonds]\<rparr>)))"

text \<open>Lines 423 to 425.\<close>

definition place_bond :: "MolGraph \<Rightarrow> nat \<Rightarrow> placing \<Rightarrow> error + placing" where
  "place_bond mol_graph b st =
     bindE (getitem (b2a mol_graph) b) (\<lambda>origin.
     let st1 = st\<lparr>local_b2a := local_b2a st @ [self_n_atoms st + origin]\<rparr>
     in bindE (getitem (b2revb mol_graph) b) (\<lambda>reverse.
          Inr (st1\<lparr>local_b2revb := local_b2revb st1 @ [self_n_bonds st1 + reverse]\<rparr>)))"

text \<open>Lines 417 to 430: one round of the loop over the graphs.\<close>

definition place_mol_graph :: "MolGraph \<Rightarrow> placing \<Rightarrow> error + placing" where
  "place_mol_graph mol_graph st =
     (let st1 = st\<lparr>local_f_atoms := local_f_atoms st @ f_atoms mol_graph\<rparr>;
          st2 = st1\<lparr>local_f_bonds := local_f_bonds st1 @ f_bonds mol_graph\<rparr>
      in bindE (for_loop [0..<n_atoms mol_graph] (place_atom mol_graph) st2) (\<lambda>st3.
         bindE (for_loop [0..<n_bonds mol_graph] (place_bond mol_graph) st3) (\<lambda>st4.
         let st5 = st4\<lparr>self_a_scope := self_a_scope st4 @ [(self_n_atoms st4, n_atoms mol_graph)]\<rparr>;
             st6 = st5\<lparr>self_b_scope := self_b_scope st5 @ [(self_n_bonds st5, n_bonds mol_graph)]\<rparr>;
             st7 = st6\<lparr>self_n_atoms := self_n_atoms st6 + n_atoms mol_graph\<rparr>
         in Inr (st7\<lparr>self_n_bonds := self_n_bonds st7 + n_bonds mol_graph\<rparr>))))"

definition place_mol_graphs :: "MolGraph list \<Rightarrow> placing \<Rightarrow> error + placing" where
  "place_mol_graphs mol_graphs st = for_loop mol_graphs place_mol_graph st"

text \<open>Lines 432 and 433; \<open>max\<close> of an empty sequence raises ValueError.\<close>

definition compute_max_num_bonds :: "nat list list \<Rightarrow> error + nat" where
  "compute_max_num_bonds in_bonds_lists =
     (case map length in_bonds_lists of
        [] \<Rightarrow> Inl ValueError
      | n # ns \<Rightarrow> Inr (max 1 (fold max ns n)))"

text \<open>A tensor made from nested lists: the rows must have one length.\<close>

definition tensor_2d :: "'a list list \<Rightarrow> error + 'a list list" where
  "tensor_2d rows =
     (if list_all (\<lambda>r. length r = length (hd rows)) rows then Inr rows else Inl ValueError)"

text \<open>
  Line 437 builds the nested list
  \<^verbatim>\<open>[a2b[a] + [0]*(self.max_num_bonds - len(a2b[a]) for a in range(self.n_atoms))]\<close>:
  a list display of one element, the sum of \<open>a2b[a]\<close>, for the constructor's variable \<open>a\<close>,
  and of \<open>[0]\<close> times the generator expression in the parentheses.
\<close>

definition padded_a2b :: "placing \<Rightarrow> nat \<Rightarrow> error + nat list list" where
  "padded_a2b st max_num_bonds =
     (case local_a st of
        None \<Rightarrow> Inl UnboundLocalError
      | Some a \<Rightarrow>
          bindE (getitem (local_a2b st) a) (\<lambda>row.
          bindE (list_times [0] PyGenerator) (\<lambda>padding. Inr [row @ padding])))"

record BatchMolGraph =
  batch_overwrite_default_atom_features :: bool
  batch_overwrite_default_bond_features :: bool
  atom_fdim :: int
  bond_fdim :: pyvalue
  batch_n_atoms :: nat
  batch_n_bonds :: nat
  a_scope :: "(nat \<times> nat) list"
  b_scope :: "(nat \<times> nat) list"
  max_num_bonds :: nat
  batch_f_atoms :: "fvec list"
  batch_f_bonds :: "fvec list"
  batch_a2b :: "nat list list"
  batch_b2a :: "nat list"
  batch_b2revb :: "nat list"
  b2b :: "nat list list option"
  a2a :: "nat list list option"

definition BatchMolGraph_init :: "config \<Rightarrow> MolGraph list \<Rightarrow> error + BatchMolGraph" where
  "BatchMolGraph_init cfg mol_graphs =
     bindE (getitem mol_graphs 0) (\<lambda>first.
     let overwrite_atom = overwrite_default_atom_features first;
         overwrite_bond = overwrite_default_bond_features first;
         atom_fdim0 = get_atom_fdim cfg overwrite_atom;
         bond_fdim0 = get_bond_fdim cfg False overwrite_bond overwrite_atom
     in bindE (list_times [0] (PyInt atom_fdim0)) (\<lambda>zero_atom.
        bindE (list_times [0] bond_fdim0) (\<lambda>zero_bond.
        bindE (place_mol_graphs mol_graphs (start_placing zero_atom zero_bond)) (\<lambda>st.
        bindE (compute_max_num_bonds (local_a2b st)) (\<lambda>max_num_bonds0.
        bindE (tensor_2d (local_f_atoms st)) (\<lambda>f_atoms_tensor.
        bindE (tensor_2d (local_f_bonds st)) (\<lambda>f_bonds_tensor.
        bindE (padded_a2b st max_num_bonds0) (\<lambda>a2b_lists.
        bindE (tensor_2d a2b_lists) (\<lambda>a2b_tensor.
          Inr \<lparr>batch_overwrite_default_atom_features = overwrite_atom,
               batch_overwrite_default_bond_features = overwrite_bond,
               atom_fdim = atom_fdim0,
               bond_fdim = bond_fdim0,
               batch_n_atoms = self_n_atoms st,
               batch_n_bonds = self_n_bonds st,
               a_scope = self_a_scope st,
               b_scope = self_b_scope st,
               max_num_bonds = max_num_bonds0,
               batch_f_atoms = f_atoms_tensor,
               batch_f_bonds = f_bonds_tensor,
               batch_a2b = a2b_tensor,
               batch_b2a = local_b2a st,
               batch_b2revb = local_b2revb st,
               b2b = None,
               a2a = None\<rparr>)))))))))"

subsection \<open>The derived mapping b2b\<close>

text \<open>\<open>t.size(1)\<close> of a two-dimensional tensor held as its rows.\<close>

definition size1 :: "'a list list \<Rightarrow> nat" where
  "size1 t = (case t of [] \<Rightarrow> 0 | r # rs \<Rightarrow> length r)"

text \<open>\<open>v.unsqueeze(1).repeat(1, w)\<close>: each entry of \<open>v\<close> becomes a row of \<open>w\<close> copies.\<close>

definition unsqueeze_repeat :: "'a list \<Rightarrow> nat \<Rightarrow> 'a list list" where
  "unsqueeze_repeat v w = map (replicate w) v"

text \<open>An elementwise operation on two tensors of one width: the rows pair up when the
  tensors have as many rows, a tensor of one row is broadcast, and any other shapes fail.\<close>

definition elementwise ::
  "('a \<Rightarrow> 'b \<Rightarrow> 'c) \<Rightarrow> 'a list list \<Rightarrow> 'b list list \<Rightarrow> error + 'c list list" where
  "elementwise f x y =
     (if length x = length y then Inr (map2 (map2 f) x y)
      else if length y = 1 then Inr (map (\<lambda>r. map2 f r (hd y)) x)
      else if length x = 1 then Inr (map (\<lambda>r. map2 f (hd x) r) y)
      else Inl RuntimeError)"

text \<open>\<open>get_b2b\<close> returns the mapping and leaves it cached on the batch.\<close>

definition get_b2b :: "BatchMolGraph \<Rightarrow> error + nat list list \<times> BatchMolGraph" where
  "get_b2b self =
     (case b2b self of
        Some cached \<Rightarrow> Inr (cached, self)
      | None \<Rightarrow>
          bindE (comprehension (getitem (batch_a2b self)) (batch_b2a self)) (\<lambda>b2b0.
          bindE (elementwise (\<lambda>x y. if x \<noteq> y then 1 else (0::nat)) b2b0
                   (unsqueeze_repeat (batch_b2revb self) (size1 (batch_a2b self)))) (\<lambda>revmask.
          bindE (elementwise (\<lambda>x m. x * m) b2b0 revmask) (\<lambda>result.
            Inr (result, self\<lparr>b2b := Some result\<rparr>)))))"

section \<open>Invariants used in the proofs\<close>

text \<open>Every directed edge has a reverse edge, which starts at another atom and whose
  reverse is the edge itself.\<close>

definition edges_paired :: "MolGraph \<Rightarrow> bool" where
  "edges_paired g =
     (length (b2a g) = n_bonds g \<and> length (b2revb g) = n_bonds g \<and>
      (\<forall>b<n_bonds g. b2revb g ! b < n_bonds g \<and> b2revb g ! (b2revb g ! b) = b \<and>
                      b2a g ! (b2revb g ! b) \<noteq> b2a g ! b))"

text \<open>The counters of the batch are the lengths of its lists.\<close>

definition aligned :: "placing \<Rightarrow> bool" where
  "aligned st =
     (length (local_a2b st) = self_n_atoms st \<and> length (local_b2a st) = self_n_bonds st \<and>
      length (local_b2revb st) = self_n_bonds st)"

section \<open>Example inputs\<close>

definition atom_of :: "int \<Rightarrow> int \<Rightarrow> atom" where
  "atom_of atomic_num mapno =
     \<lparr>GetAtomicNum = atomic_num, GetTotalDegree = 1, GetFormalCharge = 0, GetChiralTag = 0,
      GetTotalNumHs = 3, GetHybridization = HybridizationType_SP3, GetIsAromatic = False,
      GetMass = 12, GetAtomMapNum = mapno\<rparr>"

definition single_bond :: "nat \<Rightarrow> nat \<Rightarrow> bond" where
  "single_bond a1 a2 =
     \<lparr>GetBeginAtomIdx = a1, GetEndAtomIdx = a2, GetBondType = SINGLE,
      GetIsConjugated = False, IsInRing = False, GetStereo = 0\<rparr>"

text \<open>The reaction of the spec's example: reactant A-B, where only A carries a map number,
  and product A-C.\<close>

definition reactant_AB :: mol where
  "reactant_AB = \<lparr>GetAtoms = [atom_of 6 1, atom_of 7 0], GetBonds = [single_bond 0 1]\<rparr>"

definition product_AC :: mol where
  "product_AC = \<lparr>GetAtoms = [atom_of 6 1, atom_of 8 0], GetBonds = [single_bond 0 1]\<rparr>"

definition empty_mol :: mol where
  "empty_mol = \<lparr>GetAtoms = [], GetBonds = []\<rparr>"

text \<open>Two bonded carbons, and the state of a constructor that has given them the feature
  rows \<open>[1]\<close> and \<open>[2]\<close> and is about to enter the loop of line 273.\<close>

definition ethane :: mol where
  "ethane = \<lparr>GetAtoms = [atom_of 6 0, atom_of 6 0], GetBonds = [single_bond 0 1]\<rparr>"

definition single_bond_features :: fvec where
  "single_bond_features = [0, 1, 0, 0, 0, 0, 0, 1, 0, 0, 0, 0, 0, 0]"

definition ethane_start :: MolGraph where
  "ethane_start =
     (new_MolGraph initial_config True False)
       \<lparr>n_atoms := 2, f_atoms := [[1], [2]], a2b := [[], []]\<rparr>"

definition ethane_graph :: MolGraph where
  "ethane_graph =
     ethane_start\<lparr>n_bonds := 2,
       f_bonds := [1 # single_bond_features, 2 # single_bond_features],
       a2b := [[1], [0]], b2a := [0, 1], b2revb := [1, 0]\<rparr>"

text \<open>Two copies of that graph, placed after the padding rows.\<close>

definition placed_pair :: placing where
  "placed_pair =
     \<lparr>self_n_atoms = 5, self_n_bonds = 5,
      self_a_scope = [(1, 2), (3, 2)], self_b_scope = [(1, 2), (3, 2)],
      local_f_atoms = [[], [1], [2], [1], [2]],
      local_f_bonds = [[], 1 # single_bond_features, 2 # single_bond_features,
                       1 # single_bond_features, 2 # single_bond_features],
      local_a2b = [[], [2], [1], [4], [3]],
      local_b2a = [0, 1, 2, 3, 4],
      local_b2revb = [0, 2, 1, 4, 3],
      local_a = Some 1\<rparr>"

text \<open>A graph of one atom and no bond, with its overwrite flag and its feature row.\<close>

definition lone_atom_graph :: "bool \<Rightarrow> fvec \<Rightarrow> MolGraph" where
  "lone_atom_graph overwrite row =
     (new_MolGraph initial_config overwrite False)
       \<lparr>n_atoms := 1, f_atoms := [row], a2b := [[]]\<rparr>"

text \<open>One such graph, and two of them, placed after the padding rows.\<close>

definition placed_lone :: "fvec \<Rightarrow> fvec \<Rightarrow> fvec \<Rightarrow> placing" where
  "placed_lone zero_atom zero_bond row =
     \<lparr>self_n_atoms = 2, self_n_bonds = 1,
      self_a_scope = [(1, 1)], self_b_scope = [(1, 0)],
      local_f_atoms = [zero_atom, row], local_f_bonds = [zero_bond],
      local_a2b = [[], []], local_b2a = [0], local_b2revb = [0],
      local_a = Some 0\<rparr>"

definition placed_two :: "fvec \<Rightarrow> fvec \<Rightarrow> fvec \<Rightarrow> fvec \<Rightarrow> placing" where
  "placed_two zero_atom zero_bond row1 row2 =
     \<lparr>self_n_atoms = 3, self_n_bonds = 1,
      self_a_scope = [(1, 1), (2, 1)], self_b_scope = [(1, 0), (1, 0)],
      local_f_atoms = [zero_atom, row1, row2], local_f_bonds = [zero_bond],
      local_a2b = [[], [], []], local_b2a = [0], local_b2revb = [0],
      local_a = Some 0\<rparr>"

text \<open>The tensors of a batch that holds the chain of three atoms 1-2-3: the edges are
  1 (from atom 1 to atom 2), 2 (its reverse), 3 (from atom 2 to atom 3) and 4 (its reverse).\<close>

definition chain_batch :: BatchMolGraph where
  "chain_batch =
     \<lparr>batch_overwrite_default_atom_features = False,
      batch_overwrite_default_bond_features = False,
      atom_fdim = 0, bond_fdim = PyInt 0,
      batch_n_atoms = 4, batch_n_bonds = 5,
      a_scope = [(1, 3)], b_scope = [(1, 4)],
      max_num_bonds = 2,
      batch_f_atoms = [[], [], [], []],
      batch_f_bonds = [[], [], [], [], []],
      batch_a2b = [[0, 0], [2, 0], [1, 4], [3, 0]],
      batch_b2a = [0, 1, 2, 2, 3],
      batch_b2revb = [0, 2, 1, 4, 3],
      b2b = None, a2a = None\<rparr>"

definition chain_b2b :: "nat list list" where
  "chain_b2b = [[0, 0], [0, 0], [0, 4], [1, 0], [0, 0]]"

section \<open>Properties of the encoders\<close>

lemma ATOM_FDIM_value: "ATOM_FDIM = 133"
  by (simp add: ATOM_FDIM_def ATOM_FEATURES_def MAX_ATOMIC_NUM_def)

lemma list_index_less: "v \<in> set xs \<Longrightarrow> list_index xs v < length xs"
  by (induction xs) auto

lemma setitem_in_range:
  "0 \<le> i \<Longrightarrow> i < int (length xs) \<Longrightarrow> setitem xs i v = Inr (xs[nat i := v])"
  by (simp add: setitem_def Let_def)

lemma setitem_last:
  "xs \<noteq> [] \<Longrightarrow> setitem xs (- 1) v = Inr (xs[length xs - 1 := v])"
proof -
  assume "xs \<noteq> []"
  then have "0 < length xs" by simp
  then have "nat (int (length xs) + - 1) = length xs - 1" by linarith
  with \<open>0 < length xs\<close> show ?thesis
    by (simp add: setitem_def Let_def)
qed

lemma onek_encoding_unk_returns:
  "\<exists>enc. onek_encoding_unk v choices = Inr enc \<and> length enc = length choices + 1"
proof (cases "v \<in> set choices")
  case True
  then have "list_index choices v < length choices" by (rule list_index_less)
  then have "setitem (replicate (length choices + 1) (0::real)) (int (list_index choices v)) 1 =
      Inr ((replicate (length choices + 1) 0)[nat (int (list_index choices v)) := 1])"
    by (intro setitem_in_range) simp_all
  with True show ?thesis
    unfolding onek_encoding_unk_def Let_def by (simp del: replicate.simps)
next
  case False
  have "setitem (replicate (length choices + 1) (0::real)) (- 1) 1 =
      Inr ((replicate (length choices + 1) 0)[length (replicate (length choices + 1) (0::real)) - 1 := 1])"
    by (rule setitem_last) simp
  with False show ?thesis
    unfolding onek_encoding_unk_def Let_def by (simp del: replicate.simps)
qed

lemma bond_features_returns: "\<exists>f. bond_features bond = Inr f \<and> length f = 14"
proof (cases bond)
  case None
  then show ?thesis
    by (simp add: bond_features_def list_times_def bindE_def BOND_FDIM_def)
next
  case (Some b)
  obtain enc where enc: "onek_encoding_unk (GetStereo b) (map int [0..<6]) = Inr enc"
    and len: "length enc = length (map int [0..<6]) + 1"
    using onek_encoding_unk_returns by blast
  from len have "length enc = 7" by simp
  with Some enc show ?thesis
    by (simp add: bond_features_def bindE_def Let_def)
qed

lemma atom_features_None: "atom_features None fg = Inr (replicate 133 0)"
  by (simp add: atom_features_def list_times_def ATOM_FDIM_value)

text \<open>
  C1. The spec says both encoders are total on their domains. \<open>bond_features\<close> is
  (lemma \<open>bond_features_returns\<close>), and so is \<open>atom_features\<close> on \<open>None\<close>; on every real atom
  \<open>atom_features\<close> raises KeyError, because it reads \<open>ATOM_FEATURES['num_hs']\<close> while the
  table's key is \<open>'num_Hs'\<close>.
\<close>

theorem atom_features_raises_KeyError:
  "atom_features (Some a) functional_groups = Inl KeyError"
proof -
  obtain e1 where e1: "onek_encoding_unk (GetAtomicNum a - 1) (map int [0..<MAX_ATOMIC_NUM]) = Inr e1"
    using onek_encoding_unk_returns by blast
  obtain e2 where e2: "onek_encoding_unk (GetTotalDegree a) [0, 1, 2, 3, 4, 5] = Inr e2"
    using onek_encoding_unk_returns by blast
  obtain e3 where e3: "onek_encoding_unk (GetFormalCharge a) [-1, -2, 1, 2, 0] = Inr e3"
    using onek_encoding_unk_returns by blast
  obtain e4 where e4: "onek_encoding_unk (GetChiralTag a) [0, 1, 2, 3] = Inr e4"
    using onek_encoding_unk_returns by blast
  show ?thesis
    by (simp add: atom_features_def dict_getitem_def ATOM_FEATURES_def bindE_def e1 e2 e3 e4)
qed

section \<open>The constructor of a graph\<close>

lemma bindE_Inr: "bindE m f = Inr y \<longleftrightarrow> (\<exists>x. m = Inr x \<and> f x = Inr y)"
  by (cases m) (simp_all add: bindE_def)

text \<open>
  C7. The spec says that a graph built in reaction mode with an extra atom or bond feature
  array fails at once with a configuration error. The guards that raise it are the first
  statements of the reaction branch, but the constructor never reaches a branch: line 255
  reads \<open>self.isreaction\<close>, an attribute that nothing assigns (line 234 assigns
  \<open>self.is_reaction\<close>), so every construction raises AttributeError.
\<close>

theorem constructor_raises_AttributeError:
  "MolGraph_init cfg mol atom_features_extra bond_features_extra
     overwrite_default_atom overwrite_default_bond = Inl AttributeError \<and>
   init_reaction self mol (Some extra) bond_features_extra = Inl NotImplementedError \<and>
   init_reaction self mol None (Some extra) = Inl NotImplementedError"
  by (simp add: MolGraph_init_def truth_of_attribute_def attribute_truth_def bindE_def
      Let_def init_reaction_def)

text \<open>
  C9. The spec says that an extra feature array whose length differs from the number of
  atoms (or bonds) makes the construction raise a data-integrity error. For the molecule
  without atoms, one row of extra atom features and the overwrite flag set, the
  constructor raises AttributeError as for every input; and the branch for molecules
  itself accepts the row: line 264 takes \<open>n_atoms\<close> from the list that line 260 has just
  made out of the extra rows, so the comparison of line 265 holds and a graph of one atom
  is built.
\<close>

theorem extra_atom_features_length_unchecked:
  "MolGraph_init initial_config (Molecule empty_mol) (Some [[1]]) None True False =
     Inl AttributeError \<and>
   init_molecule (new_MolGraph initial_config True False) (Molecule empty_mol)
       (Some [[1]]) None True False =
     Inr ((new_MolGraph initial_config True False)
            \<lparr>n_atoms := 1, f_atoms := [[1]], a2b := [[]]\<rparr>)"
  by (simp add: MolGraph_init_def truth_of_attribute_def attribute_truth_def
      init_molecule_def new_MolGraph_def empty_mol_def bindE_def Let_def
      molecule_bond_loop_def)

text \<open>
  C5. The spec says that in reaction mode the atoms are split into reactant-only,
  product-only and common atoms, and that a reactant-only atom gets the null vector as its
  product-side feature. On the spec's own example (reactant A-B, product A-C, only A
  mapped) \<open>map_reac_to_prod\<close> returns after the first reactant atom and puts that atom, the
  mapped A at index 0, among the reactant-only atoms; B at index 1 is in no class, and
  computing its product-side feature raises KeyError.
\<close>

theorem map_reac_to_prod_misplaces_atoms:
  "map_reac_to_prod reactant_AB product_AC = Some (Map.empty(0 \<mapsto> 0), [1], [0]) \<and>
   product_side_features reactant_AB product_AC (Map.empty(0 \<mapsto> 0)) [1] [0] = Inl KeyError"
  by (simp add: map_reac_to_prod_def reactant_AB_def product_AC_def atom_of_def
      scan_product_atom_def Let_def product_side_features_def atom_features_None bindE_def)

section \<open>Reverse edges\<close>

lemma for_loop_invariant:
  assumes "for_loop xs body s = Inr t" and "P s"
    and "\<And>x u v. x \<in> set xs \<Longrightarrow> P u \<Longrightarrow> body x u = Inr v \<Longrightarrow> P v"
  shows "P t"
  using assms
proof (induction xs arbitrary: s)
  case Nil
  then show ?case by simp
next
  case (Cons x xs)
  from Cons.prems(1) obtain u where u: "body x s = Inr u" and rest: "for_loop xs body u = Inr t"
    by (auto simp: bindE_Inr)
  have "P u" using Cons.prems(2,3) u by auto
  moreover have "\<And>y u v. y \<in> set xs \<Longrightarrow> P u \<Longrightarrow> body y u = Inr v \<Longrightarrow> P v"
    using Cons.prems(3) by auto
  ultimately show ?case using rest by (rule Cons.IH [rotated])
qed

lemma update_index_mappings_paired:
  assumes "update_index_mappings a1 a2 g = Inr h" and "a1 \<noteq> a2" and "edges_paired g"
  shows "edges_paired h"
proof -
  let ?n = "n_bonds g"
  from assms(1) have h: "b2a h = b2a g @ [a1, a2]" "b2revb h = b2revb g @ [?n + 1, ?n]"
      "n_bonds h = ?n + 2"
    by (auto simp: update_index_mappings_def Let_def bindE_Inr)
  from assms(3) have len: "length (b2a g) = ?n" "length (b2revb g) = ?n"
    and old: "\<And>b. b < ?n \<Longrightarrow> b2revb g ! b < ?n \<and> b2revb g ! (b2revb g ! b) = b \<and>
                      b2a g ! (b2revb g ! b) \<noteq> b2a g ! b"
    by (simp_all add: edges_paired_def)
  have "b2revb h ! b < n_bonds h \<and> b2revb h ! (b2revb h ! b) = b \<and>
        b2a h ! (b2revb h ! b) \<noteq> b2a h ! b" if bound: "b < n_bonds h" for b
  proof -
    from bound h(3) consider "b < ?n" | "b = ?n" | "b = ?n + 1" by linarith
    then show ?thesis
    proof cases
      case 1
      with old [OF 1] len show ?thesis by (simp add: h nth_append)
    next
      case 2
      with len assms(2) show ?thesis by (simp add: h nth_append)
    next
      case 3
      with len assms(2) show ?thesis by (simp add: h nth_append)
    qed
  qed
  with len show ?thesis by (simp add: edges_paired_def h)
qed

lemma append_bond_paired:
  assumes "append_bond a1 a2 f g = Inr h" and "a1 \<noteq> a2" and "edges_paired g"
  shows "edges_paired h"
proof -
  from assms(1) obtain g' where upd: "update_index_mappings a1 a2 g' = Inr h"
    and same: "b2a g' = b2a g" "b2revb g' = b2revb g" "n_bonds g' = n_bonds g"
    by (auto simp: append_bond_def Let_def bindE_Inr)
  from assms(3) same have "edges_paired g'" by (simp add: edges_paired_def)
  with upd assms(2) show ?thesis by (rule update_index_mappings_paired)
qed

lemma molecule_bond_step_paired:
  assumes "molecule_bond_step m bfe ow a1 a2 g = Inr h" and "a1 \<noteq> a2" and "edges_paired g"
  shows "edges_paired h"
  using assms
  by (auto simp: molecule_bond_step_def bindE_Inr split: option.splits dest: append_bond_paired)

lemma reaction_bond_step_paired:
  assumes "reaction_bond_step mr mp ri2pi pio nr a1 a2 g = Inr h" and "a1 \<noteq> a2"
    and "edges_paired g"
  shows "edges_paired h"
  using assms
  by (auto simp: reaction_bond_step_def bindE_Inr split: if_splits dest: append_bond_paired)

lemma pair_loops_paired:
  assumes "for_loop [0..<n] (\<lambda>a1 s. for_loop [a1 + 1..<k s] (step a1) s) g = Inr h"
    and "edges_paired g"
    and "\<And>a1 a2 u v. a1 \<noteq> a2 \<Longrightarrow> edges_paired u \<Longrightarrow> step a1 a2 u = Inr v \<Longrightarrow> edges_paired v"
  shows "edges_paired h"
proof (rule for_loop_invariant [OF assms(1), where P = edges_paired])
  show "edges_paired g" by fact
next
  fix a1 u v
  assume "edges_paired u" and inner: "for_loop [a1 + 1..<k u] (step a1) u = Inr v"
  show "edges_paired v"
  proof (rule for_loop_invariant [OF inner, where P = edges_paired])
    show "edges_paired u" by fact
  next
    fix a2 u' v'
    assume "a2 \<in> set [a1 + 1..<k u]" "edges_paired u'" "step a1 a2 u' = Inr v'"
    then show "edges_paired v'" using assms(3) [of a1 a2 u' v'] by simp
  qed
qed

text \<open>
  C2. In every graph that one of the two bond loops (lines 273 to 299 for a molecule,
  lines 334 to 376 for a reaction) builds from the constructor's empty edge lists, each
  directed edge \<open>b\<close> satisfies \<open>b2revb[b2revb[b]] == b\<close> and the reverse edge leaves another
  atom: \<open>b2a[b2revb[b]] != b2a[b]\<close>.
\<close>

theorem reverse_edges_paired:
  assumes "n_bonds self = 0" and "b2a self = []" and "b2revb self = []"
    and "molecule_bond_loop m bond_features_extra overwrite self = Inr g \<or>
         reaction_bond_loop mol_reac mol_prod ri2pi pio n_atoms_reac self = Inr g"
    and "b < n_bonds g"
  shows "length (b2a g) = n_bonds g \<and> length (b2revb g) = n_bonds g \<and>
         b2revb g ! b < n_bonds g \<and>
         b2revb g ! (b2revb g ! b) = b \<and> b2a g ! (b2revb g ! b) \<noteq> b2a g ! b"
proof -
  have start: "edges_paired self" using assms(1-3) by (simp add: edges_paired_def)
  from assms(4) have "edges_paired g"
  proof
    assume "molecule_bond_loop m bond_features_extra overwrite self = Inr g"
    then show ?thesis
      unfolding molecule_bond_loop_def
      by (rule pair_loops_paired [OF _ start]) (rule molecule_bond_step_paired)
  next
    assume "reaction_bond_loop mol_reac mol_prod ri2pi pio n_atoms_reac self = Inr g"
    then show ?thesis
      unfolding reaction_bond_loop_def
      by (rule pair_loops_paired [OF _ start]) (rule reaction_bond_step_paired)
  qed
  with assms(5) show ?thesis by (simp add: edges_paired_def)
qed

lemma ethane_bond_loop:
  "molecule_bond_loop ethane None False ethane_start = Inr ethane_graph"
  by (simp add: molecule_bond_loop_def ethane_start_def ethane_graph_def new_MolGraph_def
      upt_rec molecule_bond_step_def GetBondBetweenAtoms_def GetNumAtoms_def ethane_def
      joins_def bond_features_def single_bond_def onek_encoding_unk_def setitem_def
      single_bond_features_def append_bond_def update_index_mappings_def getitem_def
      bindE_def Let_def enumerate_eq_zip)

theorem reverse_edges_paired_witness:
  "n_bonds ethane_start = 0 \<and> b2a ethane_start = [] \<and> b2revb ethane_start = [] \<and>
   molecule_bond_loop ethane None False ethane_start = Inr ethane_graph \<and>
   0 < n_bonds ethane_graph \<and>
   b2revb ethane_graph ! (b2revb ethane_graph ! 0) = 0 \<and>
   b2a ethane_graph ! (b2revb ethane_graph ! 0) \<noteq> b2a ethane_graph ! 0"
proof -
  have s: "n_bonds ethane_start = 0" "b2a ethane_start = []" "b2revb ethane_start = []"
    by (simp_all add: ethane_start_def new_MolGraph_def)
  have b: "0 < n_bonds ethane_graph" by (simp add: ethane_graph_def)
  from reverse_edges_paired [OF s disjI1 [OF ethane_bond_loop] b] s ethane_bond_loop b
  show ?thesis by simp
qed

section \<open>The constructor of a batch\<close>

text \<open>
  C10. A batch needs at least one graph: the first statement of the constructor reads
  \<open>mol_graphs[0]\<close>, so the empty list makes it raise (IndexError) instead of returning a
  batch of the padding rows alone.
\<close>

theorem empty_batch_raises_IndexError:
  "BatchMolGraph_init cfg [] = Inl IndexError"
  by (simp add: BatchMolGraph_init_def getitem_def bindE_def)

lemma nonempty_batch_raises_TypeError:
  "BatchMolGraph_init cfg (g # gs) = Inl TypeError"
  by (simp add: BatchMolGraph_init_def getitem_def bindE_def Let_def list_times_def
      get_bond_fdim_def)

lemma place_lone_atom:
  "place_mol_graphs [lone_atom_graph overwrite row] (start_placing zero_atom zero_bond) =
     Inr (placed_lone zero_atom zero_bond row)"
  by (simp add: place_mol_graphs_def place_mol_graph_def place_atom_def start_placing_def
      lone_atom_graph_def new_MolGraph_def placed_lone_def getitem_def bindE_def Let_def)

text \<open>
  C4. The spec says that after placing, \<open>max_num_bonds\<close> is the largest number of incoming
  edges with a floor of 1, and that every atom's list is padded with 0 to that width. For
  a batch of one atom without bonds the floor gives 1, but no padded array is made: the
  expression of line 437 multiplies \<open>[0]\<close> by a generator (its closing parenthesis stands
  after the \<open>for\<close> clause) and raises TypeError; the whole constructor raises TypeError
  already at line 411, where \<open>[0]\<close> is multiplied by the \<open>None\<close> that \<open>get_bond_fdim\<close> returns.
\<close>

theorem padded_a2b_raises_TypeError:
  "place_mol_graphs [lone_atom_graph False row] (start_placing zero_atom zero_bond) =
     Inr (placed_lone zero_atom zero_bond row) \<and>
   compute_max_num_bonds (local_a2b (placed_lone zero_atom zero_bond row)) = Inr 1 \<and>
   padded_a2b (placed_lone zero_atom zero_bond row) 1 = Inl TypeError \<and>
   BatchMolGraph_init cfg [lone_atom_graph False row] = Inl TypeError"
  by (simp add: place_lone_atom nonempty_batch_raises_TypeError)
     (simp add: placed_lone_def compute_max_num_bonds_def padded_a2b_def getitem_def
       list_times_def bindE_def)

lemma place_mol_graph_ignores_flags:
  "place_mol_graph
     (g\<lparr>overwrite_default_atom_features := x, overwrite_default_bond_features := y\<rparr>) =
   place_mol_graph g"
proof -
  let ?g = "g\<lparr>overwrite_default_atom_features := x, overwrite_default_bond_features := y\<rparr>"
  have atoms: "place_atom ?g = place_atom g"
    by (simp add: fun_eq_iff place_atom_def)
  have bonds: "place_bond ?g = place_bond g"
    by (simp add: fun_eq_iff place_bond_def)
  show ?thesis
    by (rule ext) (simp add: place_mol_graph_def atoms bonds)
qed

lemma place_mol_graphs_ignores_flags:
  "place_mol_graphs
     (map (\<lambda>g. g\<lparr>overwrite_default_atom_features := x g,
                  overwrite_default_bond_features := y g\<rparr>) gs) st =
   place_mol_graphs gs st"
  unfolding place_mol_graphs_def
  by (induction gs arbitrary: st)
     (simp_all add: place_mol_graph_ignores_flags bindE_def split: sum.splits)

lemma place_mol_graphs_after_first_ignores_flags:
  "place_mol_graphs
     (first # map (\<lambda>g. g\<lparr>overwrite_default_atom_features := x g,
                          overwrite_default_bond_features := y g\<rparr>) gs) st =
   place_mol_graphs (first # gs) st"
  using place_mol_graphs_ignores_flags [where x = x and y = y and gs = gs]
  by (simp add: place_mol_graphs_def bindE_def split: sum.splits)

text \<open>
  C6. The spec says that a batch of graphs built under different configurations is
  rejected with a configuration error. For two graphs of one atom, the first built
  without and the second with the overwrite flag, the loop of lines 416 to 430 places
  both, and the constructor ends as it does for every non-empty list, with the TypeError
  of line 411, which is no configuration error.
\<close>

theorem mixed_batch_counterexample:
  "place_mol_graphs [lone_atom_graph False [0, 0], lone_atom_graph True [1]]
     (start_placing [0, 0] []) = Inr (placed_two [0, 0] [] [0, 0] [1]) \<and>
   BatchMolGraph_init initial_config [lone_atom_graph False [0, 0], lone_atom_graph True [1]] =
     Inl TypeError \<and>
   \<not> configuration_error TypeError"
  by (simp add: nonempty_batch_raises_TypeError configuration_error_def)
     (simp add: place_mol_graphs_def place_mol_graph_def place_atom_def start_placing_def
       lone_atom_graph_def new_MolGraph_def placed_two_def getitem_def bindE_def Let_def)

text \<open>
  C6, as the code has it. The constructor of a batch compares no configurations: it reads
  the two overwrite flags of the first graph only, the placing of the graphs reads no
  graph's flags, and the constructor never raises the configuration error. Changing the
  flags of the graphs after the first changes nothing.
\<close>

theorem batch_reads_flags_of_first_graph_only:
  "place_mol_graphs
     (map (\<lambda>g. g\<lparr>overwrite_default_atom_features := x g,
                  overwrite_default_bond_features := y g\<rparr>) gs) st =
     place_mol_graphs gs st \<and>
   BatchMolGraph_init cfg
     (first # map (\<lambda>g. g\<lparr>overwrite_default_atom_features := x g,
                          overwrite_default_bond_features := y g\<rparr>) gs) =
     BatchMolGraph_init cfg (first # gs) \<and>
   BatchMolGraph_init cfg mol_graphs \<noteq> Inl NotImplementedError"
proof -
  have "BatchMolGraph_init cfg mol_graphs \<noteq> Inl NotImplementedError"
    by (cases mol_graphs)
       (simp_all add: BatchMolGraph_init_def getitem_def bindE_def Let_def list_times_def
          get_bond_fdim_def)
  moreover have "BatchMolGraph_init cfg
     (first # map (\<lambda>g. g\<lparr>overwrite_default_atom_features := x g,
                          overwrite_default_bond_features := y g\<rparr>) gs) =
     BatchMolGraph_init cfg (first # gs)"
    by (simp add: BatchMolGraph_init_def getitem_def Let_def
        place_mol_graphs_after_first_ignores_flags)
  ultimately show ?thesis
    by (simp add: place_mol_graphs_ignores_flags)
qed

section \<open>Index shifts in a batch\<close>

lemma place_atoms_result:
  "for_loop xs (place_atom g) st = Inr st' \<Longrightarrow>
     st' = st\<lparr>local_a := (if xs = [] then local_a st else Some (last xs)),
              local_a2b := local_a2b st @ map (\<lambda>a. map (\<lambda>b. b + self_n_bonds st) (a2b g ! a)) xs\<rparr>"
proof (induction xs arbitrary: st)
  case Nil
  then show ?case by simp
next
  case (Cons x xs)
  from Cons.prems obtain u where u: "place_atom g x st = Inr u"
    and rest: "for_loop xs (place_atom g) u = Inr st'"
    by (auto simp: bindE_Inr)
  from u have u_eq: "u = st\<lparr>local_a := Some x,
      local_a2b := local_a2b st @ [map (\<lambda>b. b + self_n_bonds st) (a2b g ! x)]\<rparr>"
    by (auto simp: place_atom_def Let_def bindE_Inr getitem_def split: if_splits)
  show ?case
    using Cons.IH [OF rest] by (simp add: u_eq)
qed

lemma place_bonds_result:
  "for_loop xs (place_bond g) st = Inr st' \<Longrightarrow>
     st' = st\<lparr>local_b2a := local_b2a st @ map (\<lambda>b. self_n_atoms st + b2a g ! b) xs,
              local_b2revb := local_b2revb st @ map (\<lambda>b. self_n_bonds st + b2revb g ! b) xs\<rparr>"
proof (induction xs arbitrary: st)
  case Nil
  then show ?case by simp
next
  case (Cons x xs)
  from Cons.prems obtain u where u: "place_bond g x st = Inr u"
    and rest: "for_loop xs (place_bond g) u = Inr st'"
    by (auto simp: bindE_Inr)
  from u have u_eq: "u = st\<lparr>local_b2a := local_b2a st @ [self_n_atoms st + b2a g ! x],
      local_b2revb := local_b2revb st @ [self_n_bonds st + b2revb g ! x]\<rparr>"
    by (auto simp: place_bond_def Let_def bindE_Inr getitem_def split: if_splits)
  show ?case
    using Cons.IH [OF rest] by (simp add: u_eq)
qed

lemma place_mol_graph_result:
  assumes "place_mol_graph g st = Inr st'"
  shows "self_n_atoms st' = self_n_atoms st + n_atoms g"
    and "self_n_bonds st' = self_n_bonds st + n_bonds g"
    and "local_a2b st' = local_a2b st @
           map (\<lambda>a. map (\<lambda>b. b + self_n_bonds st) (a2b g ! a)) [0..<n_atoms g]"
    and "local_b2a st' = local_b2a st @ map (\<lambda>b. self_n_atoms st + b2a g ! b) [0..<n_bonds g]"
    and "local_b2revb st' = local_b2revb st @
           map (\<lambda>b. self_n_bonds st + b2revb g ! b) [0..<n_bonds g]"
proof -
  from assms obtain u v where
    atoms: "for_loop [0..<n_atoms g] (place_atom g)
              (st\<lparr>local_f_atoms := local_f_atoms st @ f_atoms g,
                  local_f_bonds := local_f_bonds st @ f_bonds g\<rparr>) = Inr u"
    and bonds: "for_loop [0..<n_bonds g] (place_bond g) u = Inr v"
    and st': "st' = v\<lparr>self_a_scope := self_a_scope v @ [(self_n_atoms v, n_atoms g)],
                     self_b_scope := self_b_scope v @ [(self_n_bonds v, n_bonds g)],
                     self_n_atoms := self_n_atoms v + n_atoms g,
                     self_n_bonds := self_n_bonds v + n_bonds g\<rparr>"
    by (auto simp: place_mol_graph_def Let_def bindE_Inr)
  note u = place_atoms_result [OF atoms] and v = place_bonds_result [OF bonds]
  show "self_n_atoms st' = self_n_atoms st + n_atoms g" by (simp add: st' v u)
  show "self_n_bonds st' = self_n_bonds st + n_bonds g" by (simp add: st' v u)
  show "local_a2b st' = local_a2b st @
           map (\<lambda>a. map (\<lambda>b. b + self_n_bonds st) (a2b g ! a)) [0..<n_atoms g]"
    by (simp add: st' v u)
  show "local_b2a st' = local_b2a st @ map (\<lambda>b. self_n_atoms st + b2a g ! b) [0..<n_bonds g]"
    by (simp add: st' v u)
  show "local_b2revb st' = local_b2revb st @
           map (\<lambda>b. self_n_bonds st + b2revb g ! b) [0..<n_bonds g]"
    by (simp add: st' v u)
qed

lemma place_mol_graph_aligned:
  "place_mol_graph g st = Inr st' \<Longrightarrow> aligned st \<Longrightarrow> aligned st'"
  by (simp add: aligned_def place_mol_graph_result)

lemma place_mol_graphs_extends:
  "place_mol_graphs gs st = Inr st' \<Longrightarrow> aligned st \<Longrightarrow>
     (\<exists>x. local_a2b st' = local_a2b st @ x) \<and> (\<exists>y. local_b2a st' = local_b2a st @ y) \<and>
     (\<exists>z. local_b2revb st' = local_b2revb st @ z)"
proof (induction gs arbitrary: st)
  case Nil
  then show ?case by (simp add: place_mol_graphs_def)
next
  case (Cons g gs)
  from Cons.prems(1) obtain u where u: "place_mol_graph g st = Inr u"
    and rest: "place_mol_graphs gs u = Inr st'"
    by (auto simp: place_mol_graphs_def bindE_Inr)
  have "aligned u" using u Cons.prems(2) by (rule place_mol_graph_aligned)
  from Cons.IH [OF rest this] show ?case
    by (auto simp: place_mol_graph_result [OF u])
qed

lemma placed_from:
  assumes "place_mol_graphs gs st = Inr st'" and "aligned st" and "i < length gs"
  shows "(\<forall>b<n_bonds (gs ! i).
            local_b2a st' ! (self_n_bonds st + sum_list (map n_bonds (take i gs)) + b) =
              self_n_atoms st + sum_list (map n_atoms (take i gs)) + b2a (gs ! i) ! b \<and>
            local_b2revb st' ! (self_n_bonds st + sum_list (map n_bonds (take i gs)) + b) =
              self_n_bonds st + sum_list (map n_bonds (take i gs)) + b2revb (gs ! i) ! b) \<and>
         (\<forall>a<n_atoms (gs ! i).
            local_a2b st' ! (self_n_atoms st + sum_list (map n_atoms (take i gs)) + a) =
              map (\<lambda>e. e + (self_n_bonds st + sum_list (map n_bonds (take i gs))))
                (a2b (gs ! i) ! a))"
  using assms
proof (induction gs arbitrary: st i)
  case Nil
  then show ?case by simp
next
  case (Cons g gs)
  from Cons.prems(1) obtain u where u: "place_mol_graph g st = Inr u"
    and rest: "place_mol_graphs gs u = Inr st'"
    by (auto simp: place_mol_graphs_def bindE_Inr)
  have al: "aligned u" using u Cons.prems(2) by (rule place_mol_graph_aligned)
  note r = place_mol_graph_result [OF u]
  show ?case
  proof (cases i)
    case 0
    from place_mol_graphs_extends [OF rest al] obtain x y z where
      ext: "local_a2b st' = local_a2b u @ x" "local_b2a st' = local_b2a u @ y"
           "local_b2revb st' = local_b2revb u @ z"
      by blast
    from Cons.prems(2) have len: "length (local_a2b st) = self_n_atoms st"
      "length (local_b2a st) = self_n_bonds st" "length (local_b2revb st) = self_n_bonds st"
      by (simp_all add: aligned_def)
    show ?thesis
      by (simp add: 0 ext r nth_append len)
  next
    case (Suc j)
    with Cons.prems(3) have j: "j < length gs" by simp
    from Cons.IH [OF rest al j] show ?thesis
      by (simp add: Suc r add.assoc)
  qed
qed

text \<open>
  C3. When the loop of lines 416 to 430 has placed the graphs, take graph \<open>i\<close> and the
  numbers \<open>A_prev\<close> and \<open>E_prev\<close> of atoms and edges placed before it, the padding row
  counted. Every \<open>b2a\<close> entry of graph \<open>i\<close> stands in the batch increased by \<open>A_prev\<close>, every
  \<open>b2revb\<close> entry increased by \<open>E_prev\<close>, and every edge index in its \<open>a2b\<close> lists increased by
  \<open>E_prev\<close>.
\<close>

theorem placed_indices_shifted:
  assumes "place_mol_graphs mol_graphs (start_placing zero_atom zero_bond) = Inr st"
    and "i < length mol_graphs"
    and "A_prev = 1 + sum_list (map n_atoms (take i mol_graphs))"
    and "E_prev = 1 + sum_list (map n_bonds (take i mol_graphs))"
  shows "(\<forall>b<n_bonds (mol_graphs ! i).
            local_b2a st ! (E_prev + b) = A_prev + b2a (mol_graphs ! i) ! b \<and>
            local_b2revb st ! (E_prev + b) = E_prev + b2revb (mol_graphs ! i) ! b) \<and>
         (\<forall>a<n_atoms (mol_graphs ! i).
            local_a2b st ! (A_prev + a) = map (\<lambda>e. e + E_prev) (a2b (mol_graphs ! i) ! a))"
proof -
  have "aligned (start_placing zero_atom zero_bond)"
    by (simp add: aligned_def start_placing_def)
  from placed_from [OF assms(1) this assms(2)] show ?thesis
    by (simp add: assms(3,4) start_placing_def)
qed


lemma place_ethane_pair:
  "place_mol_graphs [ethane_graph, ethane_graph] (start_placing [] []) = Inr placed_pair"
  by (simp add: place_mol_graphs_def place_mol_graph_def place_atom_def place_bond_def
      start_placing_def ethane_graph_def ethane_start_def new_MolGraph_def placed_pair_def
      getitem_def bindE_def Let_def upt_rec)

theorem placed_indices_shifted_witness:
  "place_mol_graphs [ethane_graph, ethane_graph] (start_placing [] []) = Inr placed_pair \<and>
   (1::nat) < length [ethane_graph, ethane_graph] \<and>
   (3::nat) = 1 + sum_list (map n_atoms (take 1 [ethane_graph, ethane_graph])) \<and>
   (3::nat) = 1 + sum_list (map n_bonds (take 1 [ethane_graph, ethane_graph])) \<and>
   local_b2a placed_pair ! (3 + 1) = 3 + b2a ethane_graph ! 1 \<and>
   local_b2revb placed_pair ! (3 + 1) = 3 + b2revb ethane_graph ! 1 \<and>
   local_a2b placed_pair ! (3 + 1) = map (\<lambda>e. e + 3) (a2b ethane_graph ! 1)"
proof -
  have i: "(1::nat) < length [ethane_graph, ethane_graph]" by simp
  have a: "(3::nat) = 1 + sum_list (map n_atoms (take 1 [ethane_graph, ethane_graph]))"
    by (simp add: ethane_graph_def ethane_start_def)
  have e: "(3::nat) = 1 + sum_list (map n_bonds (take 1 [ethane_graph, ethane_graph]))"
    by (simp add: ethane_graph_def)
  have n: "(1::nat) < n_bonds ([ethane_graph, ethane_graph] ! 1)"
    "(1::nat) < n_atoms ([ethane_graph, ethane_graph] ! 1)"
    by (simp_all add: ethane_graph_def ethane_start_def)
  from placed_indices_shifted [OF place_ethane_pair i a e] n
  have "local_b2a placed_pair ! (3 + 1) = 3 + b2a ethane_graph ! 1 \<and>
        local_b2revb placed_pair ! (3 + 1) = 3 + b2revb ethane_graph ! 1 \<and>
        local_a2b placed_pair ! (3 + 1) = map (\<lambda>e. e + 3) (a2b ethane_graph ! 1)"
    by auto
  with place_ethane_pair i a e show ?thesis by blast
qed

section \<open>The mapping from edges to incoming edges\<close>

lemma comprehension_getitem:
  "comprehension (getitem xs) ks = Inr ys \<Longrightarrow> ys = map (nth xs) ks \<and> list_all (\<lambda>k. k < length xs) ks"
proof (induction ks arbitrary: ys)
  case Nil
  then show ?case by simp
next
  case (Cons k ks)
  from Cons.prems obtain y ys' where y: "getitem xs k = Inr y"
    and rest: "comprehension (getitem xs) ks = Inr ys'" and ys: "ys = y # ys'"
    by (auto simp: bindE_Inr)
  from y have "k < length xs" "y = xs ! k" by (auto simp: getitem_def split: if_splits)
  with Cons.IH [OF rest] ys show ?case by simp
qed

lemma mask_row:
  "map2 (\<lambda>x m. x * m) row (map2 (\<lambda>x y. if x \<noteq> y then 1 else (0::nat)) row (replicate (length row) r)) =
     map (\<lambda>e. if e = r then 0 else e) row"
  by (induction row) simp_all

text \<open>
  C8. On a batch whose tensors are well formed (the rows of \<open>a2b\<close> have one width, \<open>b2revb\<close>
  is as long as \<open>b2a\<close>), the first call of \<open>get_b2b\<close> gives, for every edge \<open>b\<close>, the row
  \<open>a2b[b2a[b]]\<close> with each entry equal to \<open>b2revb[b]\<close> replaced by 0. So the row of an
  edge does not contain the edge's reverse; index 0, whose reverse is 0, is the padding
  row and no edge.
\<close>

theorem b2b_masks_reverse_edge:
  assumes "b2b self = None"
    and "get_b2b self = Inr (t, self')"
    and "list_all (\<lambda>row. length row = size1 (batch_a2b self)) (batch_a2b self)"
    and "length (batch_b2revb self) = length (batch_b2a self)"
    and "b < length (batch_b2a self)"
  shows "t ! b = map (\<lambda>e. if e = batch_b2revb self ! b then 0 else e)
                   (batch_a2b self ! (batch_b2a self ! b)) \<and>
         (batch_b2revb self ! b \<noteq> 0 \<longrightarrow> batch_b2revb self ! b \<notin> set (t ! b))"
proof -
  let ?w = "size1 (batch_a2b self)"
  let ?ne = "\<lambda>x y. if x \<noteq> y then 1 else (0::nat)"
  from assms(1,2) obtain b2b0 revmask where
    rows: "comprehension (getitem (batch_a2b self)) (batch_b2a self) = Inr b2b0"
    and mask: "elementwise ?ne b2b0 (unsqueeze_repeat (batch_b2revb self) ?w) = Inr revmask"
    and prod: "elementwise (\<lambda>x m. x * m) b2b0 revmask = Inr t"
    by (auto simp: get_b2b_def bindE_Inr)
  from comprehension_getitem [OF rows] have b2b0: "b2b0 = map (nth (batch_a2b self)) (batch_b2a self)"
    and inside: "list_all (\<lambda>k. k < length (batch_a2b self)) (batch_b2a self)"
    by simp_all
  have len0: "length b2b0 = length (batch_b2a self)" by (simp add: b2b0)
  from mask have revmask: "revmask = map2 (map2 ?ne) b2b0 (unsqueeze_repeat (batch_b2revb self) ?w)"
    by (simp add: elementwise_def len0 assms(4) unsqueeze_repeat_def)
  then have len1: "length revmask = length b2b0"
    by (simp add: len0 assms(4) unsqueeze_repeat_def)
  from prod have t: "t = map2 (map2 (\<lambda>x m. x * m)) b2b0 revmask"
    by (simp add: elementwise_def len1)
  let ?row = "batch_a2b self ! (batch_b2a self ! b)"
  let ?r = "batch_b2revb self ! b"
  from inside assms(5) have "batch_b2a self ! b < length (batch_a2b self)"
    by (simp add: list_all_length)
  with assms(3) have width: "length ?row = ?w" by (simp add: list_all_length)
  have "t ! b = map2 (\<lambda>x m. x * m) ?row (map2 ?ne ?row (replicate ?w ?r))"
    using assms(4,5) by (simp add: t revmask b2b0 unsqueeze_repeat_def)
  also have "\<dots> = map (\<lambda>e. if e = ?r then 0 else e) ?row"
    using mask_row [of ?row ?r] by (simp add: width)
  finally have row: "t ! b = map (\<lambda>e. if e = ?r then 0 else e) ?row" .
  then show ?thesis by auto
qed


lemma chain_get_b2b:
  "get_b2b chain_batch = Inr (chain_b2b, chain_batch\<lparr>b2b := Some chain_b2b\<rparr>)"
  by (simp add: get_b2b_def chain_batch_def chain_b2b_def getitem_def bindE_def
      elementwise_def unsqueeze_repeat_def size1_def)

theorem b2b_masks_reverse_edge_witness:
  "b2b chain_batch = None \<and>
   get_b2b chain_batch = Inr (chain_b2b, chain_batch\<lparr>b2b := Some chain_b2b\<rparr>) \<and>
   list_all (\<lambda>row. length row = size1 (batch_a2b chain_batch)) (batch_a2b chain_batch) \<and>
   length (batch_b2revb chain_batch) = length (batch_b2a chain_batch) \<and>
   3 < length (batch_b2a chain_batch) \<and>
   chain_b2b ! 3 = map (\<lambda>e. if e = batch_b2revb chain_batch ! 3 then 0 else e)
                     (batch_a2b chain_batch ! (batch_b2a chain_batch ! 3)) \<and>
   batch_b2revb chain_batch ! 3 = 4 \<and> 4 \<notin> set (chain_b2b ! 3)"
proof -
  have h1: "b2b chain_batch = None" by (simp add: chain_batch_def)
  have h3: "list_all (\<lambda>row. length row = size1 (batch_a2b chain_batch)) (batch_a2b chain_batch)"
    by (simp add: chain_batch_def size1_def)
  have h4: "length (batch_b2revb chain_batch) = length (batch_b2a chain_batch)"
    by (simp add: chain_batch_def)
  have h5: "3 < length (batch_b2a chain_batch)" by (simp add: chain_batch_def)
  have r: "batch_b2revb chain_batch ! 3 = 4" by (simp add: chain_batch_def)
  note masked = b2b_masks_reverse_edge [OF h1 chain_get_b2b h3 h4 h5]
  from masked have row: "chain_b2b ! 3 =
      map (\<lambda>e. if e = batch_b2revb chain_batch ! 3 then 0 else e)
        (batch_a2b chain_batch ! (batch_b2a chain_batch ! 3))"
    by (rule conjunct1)
  have "batch_b2revb chain_batch ! 3 \<noteq> 0" by (simp add: r)
  with masked have "batch_b2revb chain_batch ! 3 \<notin> set (chain_b2b ! 3)" by blast
  then have "4 \<notin> set (chain_b2b ! 3)" by (simp add: r)
  with h1 chain_get_b2b h3 h4 h5 r row show ?thesis by blast
qed

end
